theory Spec2Isabelle
  imports Complex_Main
begin

section \<open>Python strings\<close>

text \<open>
  A Python \<open>str\<close> is a sequence of Unicode code points; \<open>len\<close> counts code points.
  A code point is a natural number, a \<open>str\<close> a list of them. A literal of the source
  is written \<open>lit ''...''\<close>.
\<close>

type_synonym codepoint = nat
type_synonym pystr = "codepoint list"

definition lit :: "string \<Rightarrow> pystr" where
  "lit s = map of_char s"

text \<open>
  \<open>str.strip()\<close> and \<open>str.split()\<close> without arguments remove, respectively split at,
  the code points for which \<open>str.isspace\<close> holds: U+0009..U+000D, U+001C..U+0020,
  U+0085, U+00A0, U+1680, U+2000..U+200A, U+2028, U+2029, U+202F, U+205F, U+3000.
\<close>

definition isspace :: "codepoint \<Rightarrow> bool" where
  "isspace c \<longleftrightarrow>
     (9 \<le> c \<and> c \<le> 13) \<or> (28 \<le> c \<and> c \<le> 32) \<or> c = 133 \<or> c = 160 \<or> c = 5760 \<or>
     (8192 \<le> c \<and> c \<le> 8202) \<or> c = 8232 \<or> c = 8233 \<or> c = 8239 \<or> c = 8287 \<or>
     c = 12288"

definition strip :: "pystr \<Rightarrow> pystr" where
  "strip s = rev (dropWhile isspace (rev (dropWhile isspace s)))"

text \<open>
  \<open>s.split()\<close>: the maximal runs of non-whitespace code points, in order. The first
  argument of \<open>split_from\<close> is the word being read.
\<close>

fun split_from :: "pystr \<Rightarrow> pystr \<Rightarrow> pystr list" where
  "split_from cur [] = (if cur = [] then [] else [cur])"
| "split_from cur (c # cs) =
     (if isspace c then (if cur = [] then split_from [] cs else cur # split_from [] cs)
      else split_from (cur @ [c]) cs)"

definition split :: "pystr \<Rightarrow> pystr list" where
  "split s = split_from [] s"

text \<open>\<open>sep.join(xs)\<close>.\<close>

fun join :: "pystr \<Rightarrow> pystr list \<Rightarrow> pystr" where
  "join sep [] = []"
| "join sep [x] = x"
| "join sep (x # y # ys) = x @ sep @ join sep (y # ys)"

section \<open>Exceptions, the output streams and the external library\<close>

text \<open>
  The exceptions the \<open>try\<close> block of \<open>main\<close> tells apart: \<open>ImportError\<close> (with its
  subclasses) and every other subclass of \<open>Exception\<close>. \<open>ZeroDivisionError\<close> is the one
  the script's own arithmetic could raise. The argument is \<open>str(e)\<close>. What is not a
  subclass of \<open>Exception\<close> (\<open>KeyboardInterrupt\<close>, \<open>SystemExit\<close>) is not modelled: an
  import or a library call either returns or raises an \<open>Exception\<close>.
\<close>

datatype exn = ImportError pystr | ZeroDivisionError | OtherException pystr

fun str_of :: "exn \<Rightarrow> pystr" where
  "str_of (ImportError m) = m"
| "str_of ZeroDivisionError = lit ''division by zero''"
| "str_of (OtherException m) = m"

text \<open>The values \<open>json.dumps\<close> is given: a dict literal keeps the order of its keys.\<close>

datatype json =
    JString pystr
  | JInt int
  | JFloat rat
  | JBool bool
  | JObject "(string \<times> json) list"

text \<open>The lines printed with \<open>file=sys.stderr\<close>, each with the values it formats.\<close>

datatype diag =
    CudaInfo bool pystr pystr pystr
  | DebugSettings pystr pystr int bool rat
  | DebugProcessing
  | WarnRepetitive nat pystr
  | WarnBreaking
  | DebugProcessed nat nat
  | WarnHighRatio rat
  | WarnTruncated pystr

text \<open>The keyword arguments of \<open>model.transcribe\<close>.\<close>

record transcribe_args =
  beam_size :: int
  language :: pystr
  condition_on_previous_text :: bool
  vad_filter :: bool
  temperature :: rat
  compression_ratio_threshold :: rat
  log_prob_threshold :: rat
  no_speech_threshold :: rat
  initial_prompt :: "pystr option"

text \<open>
  What a run does to the outside, in order: a line on standard output, a line on
  standard error, an import, a call into the libraries.
\<close>

datatype event =
    Stdout json
  | Stderr diag
  | Import string
  | Call_cuda_is_available
  | Call_WhisperModel pystr pystr pystr
  | Call_transcribe pystr transcribe_args

text \<open>
  A segment of the transcription; only its \<open>text\<close> attribute is read. The segments
  come from a generator: finite, read once, front to back, and the model runs while it
  is read, so that reading the next segment can raise.
\<close>

record segment =
  text_of :: pystr

datatype segments = StopIteration | Yield segment segments | Raise exn

fun segments_of :: "segment list \<Rightarrow> segments" where
  "segments_of [] = StopIteration"
| "segments_of (s # ss) = Yield s (segments_of ss)"

record info =
  info_language :: pystr
  language_probability :: rat
  duration :: rat

record model =
  transcribe :: "pystr \<Rightarrow> transcribe_args \<Rightarrow> exn + (segments \<times> info)"

text \<open>
  Everything \<open>main\<close> gets from outside the script: how each import and library call
  ends, and the four readings of \<open>time.time()\<close>.
\<close>

record env =
  import_faster_whisper :: "exn option"
  import_torch :: "exn option"
  cuda_is_available :: "exn + bool"
  WhisperModel :: "pystr \<Rightarrow> pystr \<Rightarrow> pystr \<Rightarrow> exn + model"
  start_time :: rat
  model_load_time :: rat
  transcription_start_time :: rat
  end_time :: rat

text \<open>
  A computation that writes events and either raises or returns: the events written
  before a raise stay written.
\<close>

type_synonym 'a io = "event list \<times> (exn + 'a)"

definition ret :: "'a \<Rightarrow> 'a io" where
  "ret x = ([], Inr x)"

definition emit :: "event \<Rightarrow> unit io" where
  "emit ev = ([ev], Inr ())"

definition call :: "event \<Rightarrow> exn + 'a \<Rightarrow> 'a io" where
  "call ev r = ([ev], r)"

definition import_module :: "string \<Rightarrow> exn option \<Rightarrow> unit io" where
  "import_module name r = ([Import name], case r of None \<Rightarrow> Inr () | Some e \<Rightarrow> Inl e)"

definition bind_io :: "'a io \<Rightarrow> ('a \<Rightarrow> 'b io) \<Rightarrow> 'b io" where
  "bind_io m f =
     (case m of
        (tr, Inl e) \<Rightarrow> (tr, Inl e)
      | (tr, Inr x) \<Rightarrow> (case f x of (tr', r) \<Rightarrow> (tr @ tr', r)))"

section \<open>The segment loop (lines 73 to 102)\<close>

record loop_state =
  transcribed_text :: pystr
  segments_processed :: nat
  last_segment_text :: pystr
  repetition_count :: nat

definition loop_init :: loop_state where
  "loop_init = \<lparr>transcribed_text = [], segments_processed = 0,
                 last_segment_text = [], repetition_count = 0\<rparr>"

datatype flow = Continue loop_state | Break loop_state

text \<open>Lines 98 to 100: the segment is added when it is longer than two code points.\<close>

definition add_segment :: "pystr \<Rightarrow> loop_state \<Rightarrow> loop_state" where
  "add_segment segment_text st =
     (if segment_text \<noteq> [] \<and> length segment_text > 2
      then st\<lparr>transcribed_text := transcribed_text st @ segment_text @ lit '' ''\<rparr>
      else st)"

text \<open>One pass through the body of the \<open>for\<close> loop, with the warnings it prints.\<close>

definition loop_body :: "loop_state \<Rightarrow> segment \<Rightarrow> diag list \<times> flow" where
  "loop_body st0 seg =
     (let st = st0\<lparr>segments_processed := segments_processed st0 + 1\<rparr>;
          segment_text = strip (text_of seg)
      in if segment_text = last_segment_text st then
           (let st' = st\<lparr>repetition_count := repetition_count st + 1\<rparr>;
                w = WarnRepetitive (repetition_count st') (take 50 segment_text)
            in if repetition_count st' \<ge> 4 then ([w, WarnBreaking], Break st')
               else ([w], Continue (add_segment segment_text st')))
         else
           ([], Continue (add_segment segment_text
                  (st\<lparr>repetition_count := 0, last_segment_text := segment_text\<rparr>))))"

fun for_segments :: "loop_state \<Rightarrow> segments \<Rightarrow> loop_state io" where
  "for_segments st StopIteration = ([], Inr st)"
| "for_segments st (Raise e) = ([], Inl e)"
| "for_segments st (Yield seg rest) =
     (case loop_body st seg of
        (ws, Break st') \<Rightarrow> (map Stderr ws, Inr st')
      | (ws, Continue st') \<Rightarrow>
          (case for_segments st' rest of (tr, r) \<Rightarrow> (map Stderr ws @ tr, r)))"

section \<open>The repetition check (lines 107 to 118)\<close>

text \<open>
  \<open>a / b\<close> on two lengths. Python's quotient is the float nearest to the exact one; the
  model keeps the exact quotient, which compares with 3 the same way for every word
  count below \<open>2 ^ 51\<close>.
\<close>

definition truediv :: "nat \<Rightarrow> nat \<Rightarrow> exn + rat" where
  "truediv a b = (if b = 0 then Inl ZeroDivisionError else Inr (of_nat a / of_nat b))"

text \<open>Lines 110 and 111.\<close>

definition repetition_ratio :: "pystr list \<Rightarrow> exn + rat" where
  "repetition_ratio words =
     (let unique_words = set words
      in if unique_words \<noteq> {} then truediv (length words) (card unique_words) else Inr 0)"

definition check_repetitive :: "pystr \<Rightarrow> pystr io" where
  "check_repetitive txt =
     (let words = split txt
      in if length words > 10 then
           bind_io ([], repetition_ratio words) (\<lambda>ratio.
             if ratio > 3 then
               (let truncated = join (lit '' '') (take (min 50 (length words div 3)) words)
                in ([Stderr (WarnHighRatio ratio), Stderr (WarnTruncated truncated)],
                    Inr truncated))
             else ret txt)
         else ret txt)"

section \<open>The result record (lines 123 to 139)\<close>

text \<open>\<open>int(x)\<close> on a float: rounding towards zero.\<close>

definition py_int :: "rat \<Rightarrow> int" where
  "py_int x = (if x \<ge> 0 then \<lfloor>x\<rfloor> else \<lceil>x\<rceil>)"

definition model_load_ms :: "env \<Rightarrow> int" where
  "model_load_ms env = py_int ((model_load_time env - start_time env) * 1000)"

definition transcription_ms :: "env \<Rightarrow> int" where
  "transcription_ms env = py_int ((end_time env - transcription_start_time env) * 1000)"

definition total_ms :: "env \<Rightarrow> int" where
  "total_ms env = py_int ((end_time env - start_time env) * 1000)"

definition timing :: "env \<Rightarrow> json" where
  "timing env = JObject
     [(''model_load_ms'', JInt (model_load_ms env)),
      (''transcription_ms'', JInt (transcription_ms env)),
      (''total_ms'', JInt (total_ms env))]"

definition result :: "env \<Rightarrow> pystr \<Rightarrow> info \<Rightarrow> pystr \<Rightarrow> pystr \<Rightarrow> pystr \<Rightarrow> int \<Rightarrow> bool \<Rightarrow> bool \<Rightarrow> json"
  where
  "result env txt nfo device compute_type model_size beam vad cuda_available =
     JObject
       [(''text'', JString txt),
        (''language'', JString (info_language nfo)),
        (''language_probability'', JFloat (language_probability nfo)),
        (''duration'', JFloat (duration nfo)),
        (''device'', JString device),
        (''compute_type'', JString compute_type),
        (''model_size'', JString model_size),
        (''beam_size'', JInt beam),
        (''vad_filter'', JBool vad),
        (''cuda_available'', JBool cuda_available),
        (''timing'', timing env)]"

section \<open>\<open>main\<close>\<close>

text \<open>
  Lines 23 to 141, the body of the \<open>try\<close>. The constructor's \<open>download_root=None\<close> and
  \<open>local_files_only=False\<close> are constants and left out of its event.
\<close>

definition try_body :: "env \<Rightarrow> pystr \<Rightarrow> pystr \<Rightarrow> unit io" where
  "try_body env audio_file_path model_size =
     bind_io (import_module ''faster_whisper'' (import_faster_whisper env)) (\<lambda>_.
     bind_io (import_module ''torch'' (import_torch env)) (\<lambda>_.
     bind_io (call Call_cuda_is_available (cuda_is_available env)) (\<lambda>cuda_available.
     let device = (if cuda_available then lit ''cuda'' else lit ''cpu'');
         compute_type = (if cuda_available then lit ''float16'' else lit ''int8'')
     in
     bind_io (emit (Stderr (CudaInfo cuda_available device compute_type model_size))) (\<lambda>_.
     bind_io (call (Call_WhisperModel model_size device compute_type)
                (WhisperModel env model_size device compute_type)) (\<lambda>model.
     let beam = (if cuda_available then 5 else 1);
         vad = (if cuda_available then True else False);
         temp = 0;
         args = \<lparr>beam_size = beam, language = lit ''en'',
                 condition_on_previous_text = False, vad_filter = vad,
                 temperature = temp, compression_ratio_threshold = 24 / 10,
                 log_prob_threshold = - 1, no_speech_threshold = 6 / 10,
                 initial_prompt = None\<rparr>
     in
     bind_io (emit (Stderr (DebugSettings device compute_type beam vad temp))) (\<lambda>_.
     bind_io (call (Call_transcribe audio_file_path args)
                (transcribe model audio_file_path args)) (\<lambda>(segs, nfo).
     bind_io (emit (Stderr DebugProcessing)) (\<lambda>_.
     bind_io (for_segments loop_init segs) (\<lambda>st.
     let stripped = strip (transcribed_text st) in
     bind_io (emit (Stderr (DebugProcessed (segments_processed st) (length stripped)))) (\<lambda>_.
     bind_io (check_repetitive stripped) (\<lambda>final_text.
     emit (Stdout (result env final_text nfo device compute_type model_size
                     beam vad cuda_available)))))))))))))"

definition usage_error :: json where
  "usage_error = JObject
     [(''error'', JString (lit ''Usage: python local_transcribe.py <audio_file_path> [model_size]''))]"

definition import_error :: "pystr \<Rightarrow> json" where
  "import_error details = JObject
     [(''error'', JString (lit ''faster-whisper not installed'')),
      (''details'', JString details),
      (''install_command'', JString (lit ''pip install faster-whisper''))]"

definition transcription_failed :: "pystr \<Rightarrow> pystr \<Rightarrow> json" where
  "transcription_failed details audio_file_path = JObject
     [(''error'', JString (lit ''Transcription failed'')),
      (''details'', JString details),
      (''audio_file'', JString audio_file_path)]"

text \<open>
  \<open>main\<close> on \<open>sys.argv\<close>: the events of the run and the exit code of the process
  (\<open>sys.exit(1)\<close>, or 0 when \<open>main\<close> returns).
\<close>

definition main :: "env \<Rightarrow> pystr list \<Rightarrow> event list \<times> int" where
  "main env argv =
     (if length argv < 2 \<or> length argv > 3 then ([Stdout usage_error], 1)
      else
        (let audio_file_path = argv ! 1;
             model_size = (if length argv = 3 then argv ! 2 else lit ''small'')
         in case try_body env audio_file_path model_size of
              (tr, Inr _) \<Rightarrow> (tr, 0)
            | (tr, Inl (ImportError m)) \<Rightarrow> (tr @ [Stdout (import_error m)], 1)
            | (tr, Inl e) \<Rightarrow>
                (tr @ [Stdout (transcription_failed (str_of e) audio_file_path)], 1)))"

section \<open>Notions used in the statements\<close>

text \<open>A generator that yields the given segments and then goes on as \<open>rest\<close>.\<close>

fun yield_all :: "segment list \<Rightarrow> segments \<Rightarrow> segments" where
  "yield_all [] rest = rest"
| "yield_all (s # ss) rest = Yield s (yield_all ss rest)"




definition state_of :: "flow \<Rightarrow> loop_state" where
  "state_of fl = (case fl of Continue st \<Rightarrow> st | Break st \<Rightarrow> st)"

definition is_word :: "pystr \<Rightarrow> bool" where
  "is_word w \<longleftrightarrow> w \<noteq> [] \<and> (\<forall>c \<in> set w. \<not> isspace c)"

text \<open>The objects printed on standard output, in order.\<close>

fun stdout_of :: "event list \<Rightarrow> json list" where
  "stdout_of [] = []"
| "stdout_of (Stdout j # es) = j # stdout_of es"
| "stdout_of (_ # es) = stdout_of es"

text \<open>The value of a key of a JSON object.\<close>

fun field :: "json \<Rightarrow> string \<Rightarrow> json option" where
  "field (JObject kvs) k = map_of kvs k"
| "field _ k = None"

text \<open>The values lines 32, 33 and 49 to 67 select, as functions of \<open>cuda_available\<close>.\<close>

definition device_of :: "bool \<Rightarrow> pystr" where
  "device_of cuda = (if cuda then lit ''cuda'' else lit ''cpu'')"

definition compute_type_of :: "bool \<Rightarrow> pystr" where
  "compute_type_of cuda = (if cuda then lit ''float16'' else lit ''int8'')"

definition args_of :: "bool \<Rightarrow> transcribe_args" where
  "args_of cuda =
     \<lparr>beam_size = (if cuda then 5 else 1), language = lit ''en'',
      condition_on_previous_text = False, vad_filter = cuda,
      temperature = 0, compression_ratio_threshold = 24 / 10,
      log_prob_threshold = - 1, no_speech_threshold = 6 / 10,
      initial_prompt = None\<rparr>"

text \<open>The events of a run up to the call of the constructor, and up to \<open>transcribe\<close>.\<close>

definition events_to_model :: "pystr \<Rightarrow> bool \<Rightarrow> event list" where
  "events_to_model m cuda =
     [Import ''faster_whisper'', Import ''torch'', Call_cuda_is_available,
      Stderr (CudaInfo cuda (device_of cuda) (compute_type_of cuda) m),
      Call_WhisperModel m (device_of cuda) (compute_type_of cuda)]"

definition events_to_transcribe :: "pystr \<Rightarrow> pystr \<Rightarrow> bool \<Rightarrow> event list" where
  "events_to_transcribe a m cuda =
     events_to_model m cuda @
     [Stderr (DebugSettings (device_of cuda) (compute_type_of cuda)
        (beam_size (args_of cuda)) (vad_filter (args_of cuda)) (temperature (args_of cuda))),
      Call_transcribe a (args_of cuda)]"

text \<open>An event that is a line on standard error.\<close>

fun is_diag :: "event \<Rightarrow> bool" where
  "is_diag (Stderr d) = True"
| "is_diag ev = False"

text \<open>The exceptions the first handler (line 143) catches.\<close>

fun is_ImportError :: "exn \<Rightarrow> bool" where
  "is_ImportError (ImportError m) = True"
| "is_ImportError e = False"

text \<open>Line 20.\<close>

definition model_size_of :: "pystr list \<Rightarrow> pystr" where
  "model_size_of argv = (if length argv = 3 then argv ! 2 else lit ''small'')"

text \<open>
  Concrete inputs: a segment with a given text, and an environment in which every
  import and call succeeds, the model yields the given segments, and the clock gives
  the four given readings.
\<close>

definition seg_of :: "string \<Rightarrow> segment" where
  "seg_of s = \<lparr>text_of = lit s\<rparr>"

definition example_env :: "bool \<Rightarrow> segment list \<Rightarrow> rat \<Rightarrow> rat \<Rightarrow> rat \<Rightarrow> rat \<Rightarrow> env" where
  "example_env cuda segs t0 t1 t2 t3 =
     \<lparr>import_faster_whisper = None, import_torch = None, cuda_is_available = Inr cuda,
      WhisperModel = (\<lambda>_ _ _. Inr \<lparr>transcribe = (\<lambda>_ _.
         Inr (segments_of segs,
              \<lparr>info_language = lit ''en'', language_probability = 1, duration = 2\<rparr>))\<rparr>),
      start_time = t0, model_load_time = t1, transcription_start_time = t2,
      end_time = t3\<rparr>"

section \<open>Strings: trimming, splitting and joining\<close>

lemma isspace_space: "isspace 32"
  by (simp add: isspace_def)


lemma split_from_words:
  "(\<forall>c \<in> set cur. \<not> isspace c) \<Longrightarrow> \<forall>w \<in> set (split_from cur s). is_word w"
proof (induction s arbitrary: cur)
  case Nil
  then show ?case by (simp add: is_word_def)
next
  case (Cons c cs)
  show ?case
  proof (cases "isspace c")
    case True
    with Cons.prems Cons.IH[of "[]"] show ?thesis by (simp add: is_word_def)
  next
    case False
    with Cons.prems Cons.IH[of "cur @ [c]"] show ?thesis by simp
  qed
qed

lemma split_words: "\<forall>w \<in> set (split s). is_word w"
  using split_from_words[of "[]" s] by (simp add: split_def)

lemma split_from_nospace:
  "\<forall>c \<in> set w. \<not> isspace c \<Longrightarrow> split_from cur (w @ s) = split_from (cur @ w) s"
  by (induction w arbitrary: cur) auto

lemma split_join:
  "\<forall>w \<in> set ws. is_word w \<Longrightarrow> split (join (lit '' '') ws) = ws"
proof (induction ws rule: induct_list012)
  case 1
  then show ?case by (simp add: split_def)
next
  case (2 x)
  then show ?case
    using split_from_nospace[of x "[]" "[]"] by (simp add: split_def is_word_def)
next
  case (3 x y ys)
  have x: "\<forall>c \<in> set x. \<not> isspace c" "x \<noteq> []"
    using 3 by (auto simp: is_word_def)
  have "split (join (lit '' '') (x # y # ys)) =
        split_from [] (x @ lit '' '' @ join (lit '' '') (y # ys))"
    by (simp add: split_def)
  also have "\<dots> = split_from x (lit '' '' @ join (lit '' '') (y # ys))"
    using split_from_nospace[OF x(1), of "[]"] by simp
  also have "\<dots> = x # split (join (lit '' '') (y # ys))"
    using x(2) by (simp add: lit_def isspace_def split_def)
  finally show ?case using 3 by simp
qed

lemma split_take:
  "split (join (lit '' '') (take k (split s))) = take k (split s)"
  by (rule split_join) (meson in_set_takeD split_words)

section \<open>The segment loop, one step at a time\<close>

lemma segments_of_yield_all: "segments_of xs = yield_all xs StopIteration"
  by (induction xs) simp_all

lemma step_repeat_continue:
  "strip (text_of seg) = last_segment_text st \<Longrightarrow> repetition_count st + 1 < 4 \<Longrightarrow>
   snd (for_segments st (Yield seg rest)) =
   snd (for_segments (add_segment (strip (text_of seg))
          (st\<lparr>segments_processed := segments_processed st + 1,
              repetition_count := repetition_count st + 1\<rparr>)) rest)"
  by (simp add: loop_body_def Let_def split: prod.splits)

lemma step_repeat_break:
  "strip (text_of seg) = last_segment_text st \<Longrightarrow> repetition_count st + 1 \<ge> 4 \<Longrightarrow>
   snd (for_segments st (Yield seg rest)) =
   Inr (st\<lparr>segments_processed := segments_processed st + 1,
              repetition_count := repetition_count st + 1\<rparr>)"
  by (simp add: loop_body_def Let_def split: prod.splits)

lemma step_fresh:
  "strip (text_of seg) \<noteq> last_segment_text st \<Longrightarrow>
   snd (for_segments st (Yield seg rest)) =
   snd (for_segments (add_segment (strip (text_of seg))
          (st\<lparr>segments_processed := segments_processed st + 1,
              repetition_count := 0, last_segment_text := strip (text_of seg)\<rparr>)) rest)"
  by (simp add: loop_body_def Let_def split: prod.splits)

lemma add_segment_fields [simp]:
  "segments_processed (add_segment t st) = segments_processed st"
  "last_segment_text (add_segment t st) = last_segment_text st"
  "repetition_count (add_segment t st) = repetition_count st"
  by (simp_all add: add_segment_def)





lemma step_cases [case_names break continue]:
  obtains stb where "repetition_count stb \<ge> 4"
      and "\<And>rest. snd (for_segments st (Yield seg rest)) = Inr stb"
  | st1 where "repetition_count st1 < 4"
      and "last_segment_text st1 = strip (text_of seg)"
      and "\<And>rest. snd (for_segments st (Yield seg rest)) = snd (for_segments st1 rest)"
proof (cases "strip (text_of seg) = last_segment_text st")
  case True
  show ?thesis
  proof (cases "repetition_count st + 1 < 4")
    case lt: True
    show ?thesis
      by (rule that(2)[OF _ _ step_repeat_continue[OF True lt]]) (use True lt in simp_all)
  next
    case False
    then have ge: "repetition_count st + 1 \<ge> 4" by simp
    show ?thesis
      by (rule that(1)[OF _ step_repeat_break[OF True ge]]) (use ge in simp)
  qed
next
  case False
  show ?thesis
    by (rule that(2)[OF _ _ step_fresh[OF False]]) simp_all
qed

lemma run_prefix:
  "snd (for_segments st0 (segments_of (xs @ [p]))) = Inr st \<Longrightarrow> repetition_count st < 4 \<Longrightarrow>
   last_segment_text st = strip (text_of p) \<and>
   (\<forall>rest. snd (for_segments st0 (yield_all (xs @ [p]) rest)) = snd (for_segments st rest))"
proof (induction xs arbitrary: st0)
  case Nil
  then have run: "snd (for_segments st0 (Yield p StopIteration)) = Inr st"
    by (simp del: for_segments.simps(3))
  show ?case
  proof (cases st0 p rule: step_cases)
    case (break stb)
    with run Nil.prems(2) show ?thesis by (simp del: for_segments.simps(3))
  next
    case (continue st1)
    from run continue(3)[of StopIteration] have "st1 = st" by simp
    with continue show ?thesis by (simp del: for_segments.simps(3))
  qed
next
  case (Cons x xs)
  then have run: "snd (for_segments st0 (Yield x (segments_of (xs @ [p])))) = Inr st"
    by (simp del: for_segments.simps(3))
  show ?case
  proof (cases st0 x rule: step_cases)
    case (break stb)
    with run Cons.prems(2) show ?thesis by (simp del: for_segments.simps(3))
  next
    case (continue st1)
    with run have "snd (for_segments st1 (segments_of (xs @ [p]))) = Inr st" by simp
    from Cons.IH[OF this Cons.prems(2)] continue(3) show ?thesis
      by (simp del: for_segments.simps(3))
  qed
qed

section \<open>The events of a run\<close>

lemma stdout_of_append [simp]: "stdout_of (xs @ ys) = stdout_of xs @ stdout_of ys"
  by (induction xs rule: stdout_of.induct) simp_all

lemma stdout_of_Stderr [simp]: "stdout_of (map Stderr ws) = []"
  by (induction ws) simp_all

lemma for_segments_quiet: "stdout_of (fst (for_segments st sg)) = []"
proof (induction sg arbitrary: st)
  case (Yield seg rest)
  obtain ws fl where lb: "loop_body st seg = (ws, fl)" by (cases "loop_body st seg")
  show ?case
  proof (cases fl)
    case (Continue st')
    with lb Yield.IH[of st'] show ?thesis by (cases "for_segments st' rest") simp
  next
    case (Break st')
    with lb show ?thesis by simp
  qed
qed simp_all

lemma check_repetitive_quiet: "stdout_of (fst (check_repetitive t)) = []"
  by (cases "repetition_ratio (split t)")
     (simp_all add: check_repetitive_def bind_io_def ret_def Let_def)

lemmas io_defs = bind_io_def import_module_def call_def emit_def ret_def

text \<open>The eight ways through the \<open>try\<close> block: seven raise, one prints the result.\<close>

lemma try_body_cases
  [case_names import_fw import_torch cuda model transcribe segments ratio success]:
  obtains
    e where "import_faster_whisper env = Some e"
      and "try_body env a m = ([Import ''faster_whisper''], Inl e)"
  | e where "import_torch env = Some e"
      and "try_body env a m = ([Import ''faster_whisper'', Import ''torch''], Inl e)"
  | e where "cuda_is_available env = Inl e"
      and "try_body env a m =
            ([Import ''faster_whisper'', Import ''torch'', Call_cuda_is_available], Inl e)"
  | cuda e where "cuda_is_available env = Inr cuda"
      and "try_body env a m = (events_to_model m cuda, Inl e)"
  | cuda e where "cuda_is_available env = Inr cuda"
      and "try_body env a m = (events_to_transcribe a m cuda, Inl e)"
  | cuda segs tr e where "cuda_is_available env = Inr cuda"
      and "for_segments loop_init segs = (tr, Inl e)"
      and "try_body env a m =
            (events_to_transcribe a m cuda @ Stderr DebugProcessing # tr, Inl e)"
  | cuda segs tr st tr' e where "cuda_is_available env = Inr cuda"
      and "for_segments loop_init segs = (tr, Inr st)"
      and "check_repetitive (strip (transcribed_text st)) = (tr', Inl e)"
      and "try_body env a m =
            (events_to_transcribe a m cuda @ Stderr DebugProcessing # tr @
             Stderr (DebugProcessed (segments_processed st)
               (length (strip (transcribed_text st)))) # tr',
             Inl e)"
  | cuda mdl segs nfo tr st tr' final where "cuda_is_available env = Inr cuda"
      and "WhisperModel env m (device_of cuda) (compute_type_of cuda) = Inr mdl"
      and "transcribe mdl a (args_of cuda) = Inr (segs, nfo)"
      and "for_segments loop_init segs = (tr, Inr st)"
      and "check_repetitive (strip (transcribed_text st)) = (tr', Inr final)"
      and "try_body env a m =
            (events_to_transcribe a m cuda @ Stderr DebugProcessing # tr @
             Stderr (DebugProcessed (segments_processed st)
               (length (strip (transcribed_text st)))) # tr' @
             [Stdout (result env final nfo (device_of cuda) (compute_type_of cuda) m
                (beam_size (args_of cuda)) (vad_filter (args_of cuda)) cuda)],
             Inr ())"
proof (cases "import_faster_whisper env")
  case (Some e)
  then have "try_body env a m = ([Import ''faster_whisper''], Inl e)"
    by (simp add: try_body_def io_defs)
  with Some show ?thesis by (rule that(1))
next
  case fw: None
  show ?thesis
  proof (cases "import_torch env")
    case (Some e)
    with fw have "try_body env a m = ([Import ''faster_whisper'', Import ''torch''], Inl e)"
      by (simp add: try_body_def io_defs)
    with Some show ?thesis by (rule that(2))
  next
    case torch: None
    show ?thesis
    proof (cases "cuda_is_available env")
      case (Inl e)
      with fw torch have "try_body env a m =
          ([Import ''faster_whisper'', Import ''torch'', Call_cuda_is_available], Inl e)"
        by (simp add: try_body_def io_defs)
      with Inl show ?thesis by (rule that(3))
    next
      case cuda: (Inr cuda)
      note pre = fw torch cuda
      note defs = try_body_def io_defs Let_def events_to_model_def events_to_transcribe_def
        device_of_def compute_type_of_def args_of_def
      show ?thesis
      proof (cases "WhisperModel env m (device_of cuda) (compute_type_of cuda)")
        case (Inl e)
        with pre have "try_body env a m = (events_to_model m cuda, Inl e)"
          by (cases cuda; simp add: defs)
        with cuda show ?thesis by (rule that(4))
      next
        case mdl: (Inr mdl)
        show ?thesis
        proof (cases "transcribe mdl a (args_of cuda)")
          case (Inl e)
          with pre mdl have "try_body env a m = (events_to_transcribe a m cuda, Inl e)"
            by (cases cuda; simp add: defs)
          with cuda show ?thesis by (rule that(5))
        next
          case (Inr p)
          obtain segs nfo where p: "p = (segs, nfo)" by (cases p)
          note tr = Inr[unfolded p]
          obtain tr r where fs: "for_segments loop_init segs = (tr, r)"
            by (cases "for_segments loop_init segs")
          show ?thesis
          proof (cases r)
            case (Inl e)
            with pre mdl tr fs have "try_body env a m =
                (events_to_transcribe a m cuda @ Stderr DebugProcessing # tr, Inl e)"
              by (cases cuda; simp add: defs)
            with cuda fs[unfolded Inl] show ?thesis by (rule that(6))
          next
            case st: (Inr st)
            obtain tr' r' where cr: "check_repetitive (strip (transcribed_text st)) = (tr', r')"
              by (cases "check_repetitive (strip (transcribed_text st))")
            show ?thesis
            proof (cases r')
              case (Inl e)
              with pre mdl tr fs st cr have "try_body env a m =
                  (events_to_transcribe a m cuda @ Stderr DebugProcessing # tr @
                   Stderr (DebugProcessed (segments_processed st)
                     (length (strip (transcribed_text st)))) # tr', Inl e)"
                by (cases cuda; simp add: defs)
              with cuda fs[unfolded st] cr[unfolded Inl] show ?thesis by (rule that(7))
            next
              case final: (Inr final)
              with pre mdl tr fs st cr have "try_body env a m =
                  (events_to_transcribe a m cuda @ Stderr DebugProcessing # tr @
                   Stderr (DebugProcessed (segments_processed st)
                     (length (strip (transcribed_text st)))) # tr' @
                   [Stdout (result env final nfo (device_of cuda) (compute_type_of cuda) m
                      (beam_size (args_of cuda)) (vad_filter (args_of cuda)) cuda)], Inr ())"
                by (cases cuda; simp add: defs)
              with cuda mdl tr fs[unfolded st] cr[unfolded final] show ?thesis by (rule that(8))
            qed
          qed
        qed
      qed
    qed
  qed
qed

lemma for_segments_diag: "list_all is_diag (fst (for_segments st sg))"
proof (induction sg arbitrary: st)
  case (Yield seg rest)
  obtain ws fl where lb: "loop_body st seg = (ws, fl)" by (cases "loop_body st seg")
  have ws: "list_all is_diag (map Stderr ws)" by (induction ws) simp_all
  show ?case
  proof (cases fl)
    case (Continue st')
    with lb ws Yield.IH[of st'] show ?thesis by (cases "for_segments st' rest") simp
  next
    case (Break st')
    with lb ws show ?thesis by simp
  qed
qed simp_all

lemma check_repetitive_diag: "list_all is_diag (fst (check_repetitive t))"
  by (cases "repetition_ratio (split t)")
     (simp_all add: check_repetitive_def bind_io_def ret_def Let_def)

lemma diag_no_calls:
  "list_all is_diag tr \<Longrightarrow>
   Call_transcribe a args \<notin> set tr \<and> Call_WhisperModel m d c \<notin> set tr \<and>
   Stdout j \<notin> set tr \<and> stdout_of tr = []"
  by (induction tr rule: stdout_of.induct) auto

lemmas ev_defs = events_to_model_def events_to_transcribe_def

lemma try_body_Inl:
  assumes "try_body env a m = (tr, Inl e)"
  shows "stdout_of tr = []"
proof (cases env a m rule: try_body_cases)
  case (segments cuda segs tr1 e1)
  with assms for_segments_quiet[of loop_init segs] show ?thesis by (auto simp: ev_defs)
next
  case (ratio cuda segs tr1 st tr' e1)
  with assms for_segments_quiet[of loop_init segs]
    check_repetitive_quiet[of "strip (transcribed_text st)"]
  show ?thesis by (auto simp: ev_defs)
qed (use assms in \<open>auto simp: ev_defs\<close>)

lemma try_body_Inr:
  assumes "try_body env a m = (tr, Inr u)"
  obtains cuda nfo final tr0 where "cuda_is_available env = Inr cuda"
    and "tr = tr0 @ [Stdout (result env final nfo (device_of cuda) (compute_type_of cuda) m
                (beam_size (args_of cuda)) (vad_filter (args_of cuda)) cuda)]"
    and "stdout_of tr0 = []"
    and "Call_WhisperModel m (device_of cuda) (compute_type_of cuda) \<in> set tr0"
    and "Call_transcribe a (args_of cuda) \<in> set tr0"
proof (cases env a m rule: try_body_cases)
  case (success cuda mdl segs nfo tr1 st tr' final)
  let ?tr0 = "events_to_transcribe a m cuda @ Stderr DebugProcessing # tr1 @
             Stderr (DebugProcessed (segments_processed st)
               (length (strip (transcribed_text st)))) # tr'"
  have "stdout_of ?tr0 = []"
    using for_segments_quiet[of loop_init segs]
      check_repetitive_quiet[of "strip (transcribed_text st)"] success(4,5)
    by (simp add: ev_defs)
  moreover have "Call_WhisperModel m (device_of cuda) (compute_type_of cuda) \<in> set ?tr0"
    "Call_transcribe a (args_of cuda) \<in> set ?tr0"
    by (simp_all add: ev_defs)
  moreover have "tr = ?tr0 @ [Stdout (result env final nfo (device_of cuda) (compute_type_of cuda) m
                (beam_size (args_of cuda)) (vad_filter (args_of cuda)) cuda)]"
    using assms success(6) by simp
  ultimately show ?thesis using success(1) that by blast
qed (use assms in auto)

lemma try_body_calls:
  "(Call_transcribe a' args \<in> set (fst (try_body env a m)) \<longrightarrow>
      (\<exists>cuda. cuda_is_available env = Inr cuda \<and> a' = a \<and> args = args_of cuda)) \<and>
   (Call_WhisperModel m' d c \<in> set (fst (try_body env a m)) \<longrightarrow>
      (\<exists>cuda. cuda_is_available env = Inr cuda \<and> m' = m \<and> d = device_of cuda \<and>
         c = compute_type_of cuda))"
proof (cases env a m rule: try_body_cases)
  case (segments cuda segs tr1 e1)
  with diag_no_calls[of tr1 a' args m' d c] for_segments_diag[of loop_init segs]
  show ?thesis by (auto simp: ev_defs)
next
  case (ratio cuda segs tr1 st tr' e1)
  with diag_no_calls[of tr1 a' args m' d c] diag_no_calls[of tr' a' args m' d c]
    for_segments_diag[of loop_init segs]
    check_repetitive_diag[of "strip (transcribed_text st)"]
  show ?thesis by (auto simp: ev_defs)
next
  case (success cuda mdl segs nfo tr1 st tr' final)
  with diag_no_calls[of tr1 a' args m' d c] diag_no_calls[of tr' a' args m' d c]
    for_segments_diag[of loop_init segs]
    check_repetitive_diag[of "strip (transcribed_text st)"]
  show ?thesis by (auto simp: ev_defs)
qed (auto simp: ev_defs)

lemma main_bad_args:
  "length argv < 2 \<or> length argv > 3 \<Longrightarrow> main env argv = ([Stdout usage_error], 1)"
  by (simp add: main_def)

lemma main_cases [case_names usage import failed success]:
  obtains "length argv < 2 \<or> length argv > 3"
      and "main env argv = ([Stdout usage_error], 1)"
  | tr m where "\<not> (length argv < 2 \<or> length argv > 3)"
      and "try_body env (argv ! 1) (model_size_of argv) = (tr, Inl (ImportError m))"
      and "stdout_of tr = []"
      and "main env argv = (tr @ [Stdout (import_error m)], 1)"
  | tr e where "\<not> (length argv < 2 \<or> length argv > 3)"
      and "try_body env (argv ! 1) (model_size_of argv) = (tr, Inl e)"
      and "\<not> is_ImportError e"
      and "stdout_of tr = []"
      and "main env argv = (tr @ [Stdout (transcription_failed (str_of e) (argv ! 1))], 1)"
  | tr cuda nfo final where "\<not> (length argv < 2 \<or> length argv > 3)"
      and "cuda_is_available env = Inr cuda"
      and "stdout_of tr = []"
      and "Call_WhisperModel (model_size_of argv) (device_of cuda) (compute_type_of cuda) \<in> set tr"
      and "Call_transcribe (argv ! 1) (args_of cuda) \<in> set tr"
      and "main env argv =
            (tr @ [Stdout (result env final nfo (device_of cuda) (compute_type_of cuda)
               (model_size_of argv) (beam_size (args_of cuda)) (vad_filter (args_of cuda)) cuda)], 0)"
proof (cases "length argv < 2 \<or> length argv > 3")
  case True
  then show ?thesis using main_bad_args that(1) by blast
next
  case False
  obtain tr r where tb: "try_body env (argv ! 1) (model_size_of argv) = (tr, r)"
    by (cases "try_body env (argv ! 1) (model_size_of argv)")
  show ?thesis
  proof (cases r)
    case (Inl e)
    note q = try_body_Inl[OF tb[unfolded Inl]]
    show ?thesis
    proof (cases e)
      case (ImportError m)
      have "main env argv = (tr @ [Stdout (import_error m)], 1)"
        using False tb Inl ImportError by (simp add: main_def model_size_of_def)
      with False tb Inl ImportError q show ?thesis using that(2) by blast
    next
      case ZeroDivisionError
      have "main env argv = (tr @ [Stdout (transcription_failed (str_of e) (argv ! 1))], 1)"
        using False tb Inl ZeroDivisionError by (simp add: main_def model_size_of_def)
      moreover have "\<not> is_ImportError e" using ZeroDivisionError by simp
      ultimately show ?thesis using False tb Inl q that(3) by blast
    next
      case (OtherException m)
      have "main env argv = (tr @ [Stdout (transcription_failed (str_of e) (argv ! 1))], 1)"
        using False tb Inl OtherException by (simp add: main_def model_size_of_def)
      moreover have "\<not> is_ImportError e" using OtherException by simp
      ultimately show ?thesis using False tb Inl q that(3) by blast
    qed
  next
    case (Inr u)
    from tb[unfolded Inr] obtain cuda nfo final tr0 where
      c: "cuda_is_available env = Inr cuda"
      and t: "tr = tr0 @ [Stdout (result env final nfo (device_of cuda) (compute_type_of cuda)
                (model_size_of argv) (beam_size (args_of cuda)) (vad_filter (args_of cuda)) cuda)]"
      and q: "stdout_of tr0 = []"
      and w: "Call_WhisperModel (model_size_of argv) (device_of cuda) (compute_type_of cuda) \<in> set tr0"
      and x: "Call_transcribe (argv ! 1) (args_of cuda) \<in> set tr0"
      by (rule try_body_Inr)
    have "main env argv = (tr, 0)"
      using False tb Inr by (simp add: main_def model_size_of_def)
    with False c t q w x show ?thesis using that(4) by blast
  qed
qed

lemma result_fields:
  "field (result env t nfo dev ct m beam vad cuda) ''error'' = None"
  "field (result env t nfo dev ct m beam vad cuda) ''text'' = Some (JString t)"
  "field (result env t nfo dev ct m beam vad cuda) ''device'' = Some (JString dev)"
  "field (result env t nfo dev ct m beam vad cuda) ''compute_type'' = Some (JString ct)"
  "field (result env t nfo dev ct m beam vad cuda) ''model_size'' = Some (JString m)"
  "field (result env t nfo dev ct m beam vad cuda) ''beam_size'' = Some (JInt beam)"
  "field (result env t nfo dev ct m beam vad cuda) ''vad_filter'' = Some (JBool vad)"
  "field (result env t nfo dev ct m beam vad cuda) ''cuda_available'' = Some (JBool cuda)"
  "field (result env t nfo dev ct m beam vad cuda) ''timing'' = Some (timing env)"
  by (simp_all add: result_def)

lemma error_fields:
  "field usage_error ''error'' =
     Some (JString (lit ''Usage: python local_transcribe.py <audio_file_path> [model_size]''))"
  "field (import_error d) ''error'' = Some (JString (lit ''faster-whisper not installed''))"
  "field (transcription_failed d a) ''error'' = Some (JString (lit ''Transcription failed''))"
  "field usage_error ''text'' = None"
  "field (import_error d) ''text'' = None"
  "field (transcription_failed d a) ''text'' = None"
  by (simp_all add: usage_error_def import_error_def transcription_failed_def)

lemma main_example:
  "main (example_env cuda [] t0 t1 t2 t3) [prog, a] =
     (events_to_transcribe a (lit ''small'') cuda @
      [Stderr DebugProcessing, Stderr (DebugProcessed 0 0),
       Stdout (result (example_env cuda [] t0 t1 t2 t3) []
         \<lparr>info_language = lit ''en'', language_probability = 1, duration = 2\<rparr>
         (device_of cuda) (compute_type_of cuda) (lit ''small'')
         (beam_size (args_of cuda)) (vad_filter (args_of cuda)) cuda)], 0)"
  by (cases cuda)
     (simp_all add: main_def try_body_def io_defs example_env_def ev_defs device_of_def
       compute_type_of_def args_of_def loop_init_def strip_def check_repetitive_def split_def
       Let_def)

lemma main_events:
  "\<not> (length argv < 2 \<or> length argv > 3) \<Longrightarrow>
   \<exists>suffix. fst (main env argv) = fst (try_body env (argv ! 1) (model_size_of argv)) @ suffix \<and>
      list_all (\<lambda>ev. \<exists>j. ev = Stdout j) suffix"
  by (cases "try_body env (argv ! 1) (model_size_of argv)")
     (auto simp: main_def model_size_of_def Let_def split: sum.splits exn.splits)

lemma main_calls:
  "(Call_transcribe a' args \<in> set (fst (main env argv)) \<longrightarrow>
      (\<exists>cuda. cuda_is_available env = Inr cuda \<and> a' = argv ! 1 \<and> args = args_of cuda)) \<and>
   (Call_WhisperModel m' d c \<in> set (fst (main env argv)) \<longrightarrow>
      (\<exists>cuda. cuda_is_available env = Inr cuda \<and> m' = model_size_of argv \<and>
         d = device_of cuda \<and> c = compute_type_of cuda))"
proof (cases "length argv < 2 \<or> length argv > 3")
  case True
  then show ?thesis by (simp add: main_bad_args)
next
  case False
  from main_events[OF False, of env] obtain suffix where
    f: "fst (main env argv) = fst (try_body env (argv ! 1) (model_size_of argv)) @ suffix"
    and t: "list_all (\<lambda>ev. \<exists>j. ev = Stdout j) suffix" by blast
  have "Call_transcribe a' args \<notin> set suffix" "Call_WhisperModel m' d c \<notin> set suffix"
    using t by (auto simp: list_all_iff)
  with f try_body_calls[of a' args env "argv ! 1" "model_size_of argv" m' d c]
  show ?thesis by auto
qed

section \<open>The repetition check and the timing\<close>

lemma card_words_pos: "length ws > 10 \<Longrightarrow> card (set ws) > 0"
  by (cases ws) (simp_all add: card_gt_0_iff)

lemma check_repetitive_result:
  "snd (check_repetitive t) =
     Inr (if length (split t) > 10 \<and>
             (of_nat (length (split t)) / of_nat (card (set (split t))) :: rat) > 3
          then join (lit '' '') (take (min 50 (length (split t) div 3)) (split t))
          else t)"
proof (cases "length (split t) > 10")
  case True
  then have "set (split t) \<noteq> {}" "card (set (split t)) \<noteq> 0"
    using card_words_pos[OF True] by auto
  with True show ?thesis
    by (simp add: check_repetitive_def repetition_ratio_def truediv_def bind_io_def ret_def
        Let_def)
next
  case False
  then show ?thesis
    by (simp add: check_repetitive_def ret_def Let_def)
qed


text \<open>Runs on concrete inputs.\<close>

lemma strip_examples:
  "strip (lit ''foo'') = lit ''foo''" "strip (lit '' foo'') = lit ''foo''"
  "strip (lit ''bar'') = lit ''bar''"
  by (simp_all add: strip_def lit_def isspace_def)

lemma main_example3:
  "main (example_env cuda [] t0 t1 t2 t3) [prog, a, m] =
     (events_to_transcribe a m cuda @
      [Stderr DebugProcessing, Stderr (DebugProcessed 0 0),
       Stdout (result (example_env cuda [] t0 t1 t2 t3) []
         \<lparr>info_language = lit ''en'', language_probability = 1, duration = 2\<rparr>
         (device_of cuda) (compute_type_of cuda) m
         (beam_size (args_of cuda)) (vad_filter (args_of cuda)) cuda)], 0)"
  by (cases cuda)
     (simp_all add: main_def try_body_def io_defs example_env_def ev_defs device_of_def
       compute_type_of_def args_of_def loop_init_def strip_def check_repetitive_def split_def
       Let_def)

lemma main_import_fails:
  "main (env\<lparr>import_faster_whisper := Some (ImportError m)\<rparr>) [prog, a] =
     ([Import ''faster_whisper'', Stdout (import_error m)], 1)"
  by (simp add: main_def try_body_def io_defs)

lemma main_cuda_fails:
  "main ((example_env c segs t0 t1 t2 t3)\<lparr>cuda_is_available := Inl (OtherException m)\<rparr>)
      [prog, a] =
     ([Import ''faster_whisper'', Import ''torch'', Call_cuda_is_available,
       Stdout (transcription_failed m a)], 1)"
  by (simp add: main_def try_body_def io_defs example_env_def)

section \<open>The claims\<close>

text \<open>
  C1. Exact-repeat guard. Let the loop have read the segments \<open>pre @ [p]\<close> without
  stopping, and let \<open>s\<close> be the next segment. If the trimmed text of \<open>s\<close> equals that
  of \<open>p\<close>, the counter goes up by one; when it is still below 4 the loop goes on, and
  when it reaches 4 the loop stops: the text accumulated so far is the result and
  nothing that follows \<open>s\<close> is read. If the trimmed text of \<open>s\<close> differs, the counter is
  0 again. A first segment whose trimmed text is not empty leaves the counter at 0.
  On five segments \<open>foo\<close> the loop stops at the fifth, the fourth repeat, with \<open>foo\<close>
  four times in the text, whatever follows.
\<close>

theorem exact_repeat_guard:
  assumes "snd (for_segments loop_init (segments_of (pre @ [p]))) = Inr st"
    and "repetition_count st < 4"
  shows
    "(strip (text_of s) = strip (text_of p) \<and> repetition_count st + 1 < 4 \<longrightarrow>
        snd (for_segments loop_init (yield_all (pre @ [p]) (Yield s rest))) =
        snd (for_segments (add_segment (strip (text_of s))
               (st\<lparr>segments_processed := segments_processed st + 1,
                   repetition_count := repetition_count st + 1\<rparr>)) rest)) \<and>
     (strip (text_of s) = strip (text_of p) \<and> repetition_count st + 1 \<ge> 4 \<longrightarrow>
        snd (for_segments loop_init (yield_all (pre @ [p]) (Yield s rest))) =
        Inr (st\<lparr>segments_processed := segments_processed st + 1,
                 repetition_count := repetition_count st + 1\<rparr>)) \<and>
     (strip (text_of s) \<noteq> strip (text_of p) \<longrightarrow>
        snd (for_segments loop_init (yield_all (pre @ [p]) (Yield s rest))) =
        snd (for_segments (add_segment (strip (text_of s))
               (st\<lparr>segments_processed := segments_processed st + 1,
                   repetition_count := 0,
                   last_segment_text := strip (text_of s)\<rparr>)) rest)) \<and>
     (strip (text_of s) \<noteq> [] \<longrightarrow>
        snd (for_segments loop_init (Yield s rest)) =
        snd (for_segments (add_segment (strip (text_of s))
               (loop_init\<lparr>segments_processed := 1, repetition_count := 0,
                   last_segment_text := strip (text_of s)\<rparr>)) rest)) \<and>
     snd (for_segments loop_init (yield_all (replicate 5 (seg_of ''foo'')) rest)) =
       Inr \<lparr>transcribed_text = lit ''foo foo foo foo '', segments_processed = 5,
            last_segment_text = lit ''foo'', repetition_count = 4\<rparr> \<and>
     count_list (split (strip (lit ''foo foo foo foo ''))) (lit ''foo'') = 4"
proof -
  have first: "strip (text_of s) \<noteq> [] \<longrightarrow>
        snd (for_segments loop_init (Yield s rest)) =
        snd (for_segments (add_segment (strip (text_of s))
               (loop_init\<lparr>segments_processed := 1, repetition_count := 0,
                   last_segment_text := strip (text_of s)\<rparr>)) rest)"
    using step_fresh[of s loop_init rest] by (simp add: loop_init_def)
  from run_prefix[OF assms]
  have last: "last_segment_text st = strip (text_of p)"
    and go: "\<And>r. snd (for_segments loop_init (yield_all (pre @ [p]) r)) = snd (for_segments st r)"
    by simp_all
  have foo: "strip (lit ''foo'') = lit ''foo''"
    by (simp add: strip_def lit_def isspace_def)
  have five: "replicate 5 (seg_of ''foo'') =
      [seg_of ''foo'', seg_of ''foo'', seg_of ''foo'', seg_of ''foo'', seg_of ''foo'']"
    by (simp add: numeral_eq_Suc)
  have ex: "snd (for_segments loop_init (yield_all (replicate 5 (seg_of ''foo'')) rest)) =
       Inr \<lparr>transcribed_text = lit ''foo foo foo foo '', segments_processed = 5,
            last_segment_text = lit ''foo'', repetition_count = 4\<rparr>"
    unfolding five
    by (simp add: loop_body_def loop_init_def add_segment_def seg_of_def foo Let_def)
       (simp add: lit_def)
  have cnt: "count_list (split (strip (lit ''foo foo foo foo ''))) (lit ''foo'') = 4"
    by (simp add: strip_def split_def lit_def isspace_def)
  have rep: "strip (text_of s) = strip (text_of p) \<and> repetition_count st + 1 < 4 \<longrightarrow>
        snd (for_segments loop_init (yield_all (pre @ [p]) (Yield s rest))) =
        snd (for_segments (add_segment (strip (text_of s))
               (st\<lparr>segments_processed := segments_processed st + 1,
                   repetition_count := repetition_count st + 1\<rparr>)) rest)"
    using step_repeat_continue[of s st rest] by (simp add: go last)
  have brk: "strip (text_of s) = strip (text_of p) \<and> repetition_count st + 1 \<ge> 4 \<longrightarrow>
        snd (for_segments loop_init (yield_all (pre @ [p]) (Yield s rest))) =
        Inr (st\<lparr>segments_processed := segments_processed st + 1,
                 repetition_count := repetition_count st + 1\<rparr>)"
    using step_repeat_break[of s st rest] by (simp add: go last)
  have fresh: "strip (text_of s) \<noteq> strip (text_of p) \<longrightarrow>
        snd (for_segments loop_init (yield_all (pre @ [p]) (Yield s rest))) =
        snd (for_segments (add_segment (strip (text_of s))
               (st\<lparr>segments_processed := segments_processed st + 1,
                   repetition_count := 0,
                   last_segment_text := strip (text_of s)\<rparr>)) rest)"
    using step_fresh[of s st rest] by (simp add: go last)
  from rep brk fresh first ex cnt show ?thesis by blast
qed

theorem exact_repeat_guard_witness:
  "snd (for_segments loop_init (segments_of ([] @ [seg_of ''foo'']))) =
     Inr \<lparr>transcribed_text = lit ''foo '', segments_processed = 1,
          last_segment_text = lit ''foo'', repetition_count = 0\<rparr> \<and>
   strip (text_of (seg_of ''foo'')) \<noteq> [] \<and>
   snd (for_segments loop_init (Yield (seg_of ''foo'') (Raise ZeroDivisionError))) =
     Inl ZeroDivisionError \<and>
   snd (for_segments loop_init
     (yield_all ([] @ [seg_of ''foo'']) (Yield (seg_of '' foo'') StopIteration))) =
     Inr \<lparr>transcribed_text = lit ''foo foo '', segments_processed = 2,
          last_segment_text = lit ''foo'', repetition_count = 1\<rparr> \<and>
   snd (for_segments loop_init
     (yield_all ([] @ [seg_of ''foo'']) (Yield (seg_of ''bar'') StopIteration))) =
     Inr \<lparr>transcribed_text = lit ''foo bar '', segments_processed = 2,
          last_segment_text = lit ''bar'', repetition_count = 0\<rparr> \<and>
   snd (for_segments loop_init
     (segments_of ([seg_of ''foo'', seg_of ''foo'', seg_of ''foo''] @ [seg_of ''foo'']))) =
     Inr \<lparr>transcribed_text = lit ''foo foo foo foo '', segments_processed = 4,
          last_segment_text = lit ''foo'', repetition_count = 3\<rparr> \<and>
   snd (for_segments loop_init
     (yield_all ([seg_of ''foo'', seg_of ''foo'', seg_of ''foo''] @ [seg_of ''foo''])
        (Yield (seg_of ''foo'') (Yield (seg_of ''bar'') StopIteration)))) =
     Inr \<lparr>transcribed_text = lit ''foo foo foo foo '', segments_processed = 5,
          last_segment_text = lit ''foo'', repetition_count = 4\<rparr>"
proof -
  note ev = loop_body_def loop_init_def add_segment_def seg_of_def strip_examples Let_def
  let ?s1 = "\<lparr>transcribed_text = lit ''foo '', segments_processed = 1,
          last_segment_text = lit ''foo'', repetition_count = 0\<rparr>"
  let ?s4 = "\<lparr>transcribed_text = lit ''foo foo foo foo '', segments_processed = 4,
          last_segment_text = lit ''foo'', repetition_count = 3\<rparr>"
  have run1: "snd (for_segments loop_init (segments_of ([] @ [seg_of ''foo'']))) = Inr ?s1"
    by (simp add: ev) (simp add: lit_def)
  have run4: "snd (for_segments loop_init
     (segments_of ([seg_of ''foo'', seg_of ''foo'', seg_of ''foo''] @ [seg_of ''foo'']))) = Inr ?s4"
    by (simp add: ev) (simp add: lit_def)
  have c1: "repetition_count ?s1 < 4" and c4: "repetition_count ?s4 < 4" by simp_all
  have a: "snd (for_segments loop_init
     (yield_all ([] @ [seg_of ''foo'']) (Yield (seg_of '' foo'') StopIteration))) =
     Inr \<lparr>transcribed_text = lit ''foo foo '', segments_processed = 2,
          last_segment_text = lit ''foo'', repetition_count = 1\<rparr>"
    using exact_repeat_guard[OF run1 c1, of "seg_of '' foo''" StopIteration]
    by (simp add: seg_of_def strip_examples add_segment_def) (simp add: lit_def)
  have b: "snd (for_segments loop_init
     (yield_all ([] @ [seg_of ''foo'']) (Yield (seg_of ''bar'') StopIteration))) =
     Inr \<lparr>transcribed_text = lit ''foo bar '', segments_processed = 2,
          last_segment_text = lit ''bar'', repetition_count = 0\<rparr>"
    using exact_repeat_guard[OF run1 c1, of "seg_of ''bar''" StopIteration]
    by (simp add: seg_of_def strip_examples add_segment_def) (simp add: lit_def)
  have c: "snd (for_segments loop_init
     (yield_all ([seg_of ''foo'', seg_of ''foo'', seg_of ''foo''] @ [seg_of ''foo''])
        (Yield (seg_of ''foo'') (Yield (seg_of ''bar'') StopIteration)))) =
     Inr \<lparr>transcribed_text = lit ''foo foo foo foo '', segments_processed = 5,
          last_segment_text = lit ''foo'', repetition_count = 4\<rparr>"
    using exact_repeat_guard[OF run4 c4, of "seg_of ''foo''" "Yield (seg_of ''bar'') StopIteration"]
    by (simp add: seg_of_def strip_examples)
  have ne: "strip (text_of (seg_of ''foo'')) \<noteq> []"
    by (simp add: seg_of_def strip_examples) (simp add: lit_def)
  have d: "snd (for_segments loop_init (Yield (seg_of ''foo'') (Raise ZeroDivisionError))) =
     Inl ZeroDivisionError"
    using exact_repeat_guard[OF run1 c1, of "seg_of ''foo''" "Raise ZeroDivisionError"] ne
    by simp
  from run1 ne d a b run4 c show ?thesis by blast
qed

text \<open>
  C2. Repetition ratio guard. The check returns the first \<open>min 50 (n div 3)\<close> words of
  the text joined by single spaces exactly when the text has \<open>n > 10\<close> words and \<open>n\<close>
  divided by the number of distinct words exceeds 3, and the text unchanged otherwise.
  Splitting the joined words gives these words back.
\<close>

theorem repetition_ratio_guard:
  "snd (check_repetitive t) =
     Inr (if length (split t) > 10 \<and>
             (of_nat (length (split t)) / of_nat (card (set (split t))) :: rat) > 3
          then join (lit '' '') (take (min 50 (length (split t) div 3)) (split t))
          else t) \<and>
   split (join (lit '' '') (take (min 50 (length (split t) div 3)) (split t))) =
     take (min 50 (length (split t) div 3)) (split t)"
  using check_repetitive_result[of t] split_take[of "min 50 (length (split t) div 3)" t]
  by simp

theorem repetition_ratio_guard_witness:
  "snd (check_repetitive (lit ''a a a a a a a a a a a a a b c'')) = Inr (lit ''a a a a a'') \<and>
   snd (check_repetitive (lit ''a b c d a b c d a b c d'')) = Inr (lit ''a b c d a b c d a b c d'')"
proof -
  have s1: "split (lit ''a a a a a a a a a a a a a b c'') =
     [lit ''a'', lit ''a'', lit ''a'', lit ''a'', lit ''a'', lit ''a'', lit ''a'',
     lit ''a'', lit ''a'', lit ''a'', lit ''a'', lit ''a'', lit ''a'', lit ''b'',
     lit ''c'']"
    by (simp add: split_def lit_def isspace_def)
  have s2: "split (lit ''a b c d a b c d a b c d'') =
     [lit ''a'', lit ''b'', lit ''c'', lit ''d'', lit ''a'', lit ''b'', lit ''c'',
     lit ''d'', lit ''a'', lit ''b'', lit ''c'', lit ''d'']"
    by (simp add: split_def lit_def isspace_def)
  have c1: "card (set
     [lit ''a'', lit ''a'', lit ''a'', lit ''a'', lit ''a'', lit ''a'', lit ''a'',
     lit ''a'', lit ''a'', lit ''a'', lit ''a'', lit ''a'', lit ''a'', lit ''b'',
     lit ''c'']) = 3"
    unfolding List.card_set by (simp add: lit_def)
  have c2: "card (set
     [lit ''a'', lit ''b'', lit ''c'', lit ''d'', lit ''a'', lit ''b'', lit ''c'',
     lit ''d'', lit ''a'', lit ''b'', lit ''c'', lit ''d'']) = 4"
    unfolding List.card_set by (simp add: lit_def)
  note r1 = repetition_ratio_guard[of "lit ''a a a a a a a a a a a a a b c''", unfolded s1 c1]
  note r2 = repetition_ratio_guard[of "lit ''a b c d a b c d a b c d''", unfolded s2 c2]
  from r1 r2 show ?thesis
    by (simp add: lit_def)
qed

text \<open>
  C3, as stated, fails. A run with no argument after the script name fails and prints
  an error object whose \<open>error\<close> value is the usage message: neither of the two
  kinds the claim allows.
\<close>

theorem usage_error_counterexample:
  "snd (main (example_env False [] 0 1 2 3) [lit ''local_transcribe.py'']) = 1 \<and>
   stdout_of (fst (main (example_env False [] 0 1 2 3) [lit ''local_transcribe.py''])) =
     [usage_error] \<and>
   field usage_error ''error'' =
     Some (JString (lit ''Usage: python local_transcribe.py <audio_file_path> [model_size]'')) \<and>
   field usage_error ''error'' \<noteq> Some (JString (lit ''faster-whisper not installed'')) \<and>
   field usage_error ''error'' \<noteq> Some (JString (lit ''Transcription failed''))"
  by (simp add: main_def usage_error_def lit_def)

text \<open>
  C3, amended. A run that fails prints one error object whose \<open>error\<close> value is one
  of three: the usage message, when the number of arguments is wrong; \<open>faster-whisper
  not installed\<close>, when an \<open>ImportError\<close> is raised anywhere in the \<open>try\<close> block;
  \<open>Transcription failed\<close>, when any other exception is raised there.
\<close>

theorem error_kinds:
  "snd (main env argv) \<noteq> 0 \<longrightarrow>
     (\<exists>j. stdout_of (fst (main env argv)) = [j] \<and>
        (field j ''error'' =
           Some (JString (lit ''Usage: python local_transcribe.py <audio_file_path> [model_size]'')) \<and>
         (length argv < 2 \<or> length argv > 3)
         \<or>
         field j ''error'' = Some (JString (lit ''faster-whisper not installed'')) \<and>
         \<not> (length argv < 2 \<or> length argv > 3) \<and>
         (\<exists>e. snd (try_body env (argv ! 1) (model_size_of argv)) = Inl e \<and> is_ImportError e)
         \<or>
         field j ''error'' = Some (JString (lit ''Transcription failed'')) \<and>
         \<not> (length argv < 2 \<or> length argv > 3) \<and>
         (\<exists>e. snd (try_body env (argv ! 1) (model_size_of argv)) = Inl e \<and> \<not> is_ImportError e)))"
proof (cases env argv rule: main_cases)
  case usage
  then show ?thesis by (simp add: error_fields)
next
  case (import tr m)
  then show ?thesis by (simp add: error_fields)
next
  case (failed tr e)
  then show ?thesis by (simp add: error_fields)
next
  case (success tr cuda nfo final)
  then show ?thesis by simp
qed

theorem error_kinds_witness:
  "snd (main (example_env False [] 0 1 2 3) [lit ''local_transcribe.py'']) \<noteq> 0 \<and>
   (\<exists>j. stdout_of (fst (main (example_env False [] 0 1 2 3) [lit ''local_transcribe.py''])) = [j] \<and>
        field j ''error'' =
          Some (JString (lit ''Usage: python local_transcribe.py <audio_file_path> [model_size]''))) \<and>
   snd (main ((example_env False [] 0 1 2 3)
          \<lparr>import_faster_whisper := Some (ImportError (lit ''No module named faster_whisper''))\<rparr>)
          [lit ''local_transcribe.py'', lit ''a.wav'']) \<noteq> 0 \<and>
   stdout_of (fst (main ((example_env False [] 0 1 2 3)
          \<lparr>import_faster_whisper := Some (ImportError (lit ''No module named faster_whisper''))\<rparr>)
          [lit ''local_transcribe.py'', lit ''a.wav''])) =
     [import_error (lit ''No module named faster_whisper'')] \<and>
   snd (main ((example_env False [] 0 1 2 3)
          \<lparr>cuda_is_available := Inl (OtherException (lit ''driver''))\<rparr>)
          [lit ''local_transcribe.py'', lit ''a.wav'']) \<noteq> 0 \<and>
   stdout_of (fst (main ((example_env False [] 0 1 2 3)
          \<lparr>cuda_is_available := Inl (OtherException (lit ''driver''))\<rparr>)
          [lit ''local_transcribe.py'', lit ''a.wav''])) =
     [transcription_failed (lit ''driver'') (lit ''a.wav'')]"
proof -
  let ?env = "example_env False [] 0 1 2 3"
  have m: "main ?env [lit ''local_transcribe.py''] = ([Stdout usage_error], 1)"
    by (simp add: main_def)
  from error_kinds[of ?env "[lit ''local_transcribe.py'']"]
  have 1: "snd (main ?env [lit ''local_transcribe.py'']) \<noteq> 0 \<and>
   (\<exists>j. stdout_of (fst (main ?env [lit ''local_transcribe.py''])) = [j] \<and>
        field j ''error'' =
          Some (JString (lit ''Usage: python local_transcribe.py <audio_file_path> [model_size]'')))"
    by (auto simp add: m)
  have 2: "snd (main (?env
          \<lparr>import_faster_whisper := Some (ImportError (lit ''No module named faster_whisper''))\<rparr>)
          [lit ''local_transcribe.py'', lit ''a.wav'']) \<noteq> 0 \<and>
   stdout_of (fst (main (?env
          \<lparr>import_faster_whisper := Some (ImportError (lit ''No module named faster_whisper''))\<rparr>)
          [lit ''local_transcribe.py'', lit ''a.wav''])) =
     [import_error (lit ''No module named faster_whisper'')]"
    by (simp add: main_import_fails)
  have 3: "snd (main (?env\<lparr>cuda_is_available := Inl (OtherException (lit ''driver''))\<rparr>)
          [lit ''local_transcribe.py'', lit ''a.wav'']) \<noteq> 0 \<and>
   stdout_of (fst (main (?env\<lparr>cuda_is_available := Inl (OtherException (lit ''driver''))\<rparr>)
          [lit ''local_transcribe.py'', lit ''a.wav''])) =
     [transcription_failed (lit ''driver'') (lit ''a.wav'')]"
    by (simp add: main_cuda_fails)
  from 1 2 3 show ?thesis by blast
qed



text \<open>
  C5. Whenever the constructor or \<open>transcribe\<close> is called, \<open>cuda_is_available\<close> has
  returned some \<open>cuda\<close>, and the device, the compute type and the arguments of
  \<open>transcribe\<close> are those selected for it: \<open>cuda\<close>, \<open>float16\<close>, beam size 5 and the
  VAD filter with the accelerator; \<open>cpu\<close>, \<open>int8\<close>, beam size 1 and no VAD filter
  without; temperature 0 in both cases. A successful run has made both calls, and its
  record reports these values.
\<close>

theorem device_parameters:
  "(Call_WhisperModel m' d c \<in> set (fst (main env argv)) \<longrightarrow>
      (\<exists>cuda. cuda_is_available env = Inr cuda \<and> d = device_of cuda \<and>
         c = compute_type_of cuda)) \<and>
   (Call_transcribe a' args \<in> set (fst (main env argv)) \<longrightarrow>
      (\<exists>cuda. cuda_is_available env = Inr cuda \<and> args = args_of cuda)) \<and>
   (snd (main env argv) = 0 \<longrightarrow>
      (\<exists>cuda j. cuda_is_available env = Inr cuda \<and>
         Call_WhisperModel (model_size_of argv) (device_of cuda) (compute_type_of cuda)
           \<in> set (fst (main env argv)) \<and>
         Call_transcribe (argv ! 1) (args_of cuda) \<in> set (fst (main env argv)) \<and>
         stdout_of (fst (main env argv)) = [j] \<and>
         field j ''device'' = Some (JString (device_of cuda)) \<and>
         field j ''compute_type'' = Some (JString (compute_type_of cuda)) \<and>
         field j ''beam_size'' = Some (JInt (beam_size (args_of cuda))) \<and>
         field j ''vad_filter'' = Some (JBool (vad_filter (args_of cuda))) \<and>
         field j ''cuda_available'' = Some (JBool cuda))) \<and>
   device_of True = lit ''cuda'' \<and> compute_type_of True = lit ''float16'' \<and>
   beam_size (args_of True) = 5 \<and> vad_filter (args_of True) = True \<and>
   temperature (args_of True) = 0 \<and>
   device_of False = lit ''cpu'' \<and> compute_type_of False = lit ''int8'' \<and>
   beam_size (args_of False) = 1 \<and> vad_filter (args_of False) = False \<and>
   temperature (args_of False) = 0"
proof -
  have ok: "snd (main env argv) = 0 \<longrightarrow>
      (\<exists>cuda j. cuda_is_available env = Inr cuda \<and>
         Call_WhisperModel (model_size_of argv) (device_of cuda) (compute_type_of cuda)
           \<in> set (fst (main env argv)) \<and>
         Call_transcribe (argv ! 1) (args_of cuda) \<in> set (fst (main env argv)) \<and>
         stdout_of (fst (main env argv)) = [j] \<and>
         field j ''device'' = Some (JString (device_of cuda)) \<and>
         field j ''compute_type'' = Some (JString (compute_type_of cuda)) \<and>
         field j ''beam_size'' = Some (JInt (beam_size (args_of cuda))) \<and>
         field j ''vad_filter'' = Some (JBool (vad_filter (args_of cuda))) \<and>
         field j ''cuda_available'' = Some (JBool cuda))"
  proof (cases env argv rule: main_cases)
    case (success tr cuda nfo final)
    then show ?thesis by (auto simp add: result_fields)
  qed simp_all
  have sel: "device_of True = lit ''cuda'' \<and> compute_type_of True = lit ''float16'' \<and>
     beam_size (args_of True) = 5 \<and> vad_filter (args_of True) = True \<and>
     temperature (args_of True) = 0 \<and>
     device_of False = lit ''cpu'' \<and> compute_type_of False = lit ''int8'' \<and>
     beam_size (args_of False) = 1 \<and> vad_filter (args_of False) = False \<and>
     temperature (args_of False) = 0"
    by (simp add: device_of_def compute_type_of_def args_of_def)
  from main_calls[of a' args env argv m' d c] ok sel show ?thesis by blast
qed

theorem device_parameters_witness:
  "snd (main (example_env True [] 0 1 2 3) [lit ''local_transcribe.py'', lit ''a.wav'']) = 0 \<and>
   Call_WhisperModel (lit ''small'') (lit ''cuda'') (lit ''float16'')
     \<in> set (fst (main (example_env True [] 0 1 2 3) [lit ''local_transcribe.py'', lit ''a.wav''])) \<and>
   Call_transcribe (lit ''a.wav'') (args_of True)
     \<in> set (fst (main (example_env True [] 0 1 2 3) [lit ''local_transcribe.py'', lit ''a.wav''])) \<and>
   (\<exists>j. stdout_of (fst (main (example_env True [] 0 1 2 3)
           [lit ''local_transcribe.py'', lit ''a.wav''])) = [j] \<and>
        field j ''device'' = Some (JString (lit ''cuda'')) \<and>
        field j ''compute_type'' = Some (JString (lit ''float16'')) \<and>
        field j ''beam_size'' = Some (JInt 5) \<and>
        field j ''vad_filter'' = Some (JBool True) \<and>
        field j ''cuda_available'' = Some (JBool True))"
proof -
  let ?env = "example_env True [] 0 1 2 3"
  let ?argv = "[lit ''local_transcribe.py'', lit ''a.wav'']"
  have ok: "snd (main ?env ?argv) = 0" by (simp add: main_example)
  have c: "cuda_is_available ?env = Inr True" by (simp add: example_env_def)
  have ev: "Call_WhisperModel (lit ''small'') (lit ''cuda'') (lit ''float16'')
     \<in> set (fst (main ?env ?argv))"
    "Call_transcribe (lit ''a.wav'') (args_of True) \<in> set (fst (main ?env ?argv))"
    by (simp_all add: main_example ev_defs device_of_def compute_type_of_def)
  from device_parameters[of "lit ''small''" "lit ''cuda''" "lit ''float16''" ?env ?argv
      "lit ''a.wav''" "args_of True"] ok
  obtain cuda j where cj: "cuda_is_available ?env = Inr cuda"
    "stdout_of (fst (main ?env ?argv)) = [j]"
    "field j ''device'' = Some (JString (device_of cuda))"
    "field j ''compute_type'' = Some (JString (compute_type_of cuda))"
    "field j ''beam_size'' = Some (JInt (beam_size (args_of cuda)))"
    "field j ''vad_filter'' = Some (JBool (vad_filter (args_of cuda)))"
    "field j ''cuda_available'' = Some (JBool cuda)"
    by blast
  from cj(1) c have "cuda = True" by simp
  with cj have "stdout_of (fst (main ?env ?argv)) = [j] \<and>
        field j ''device'' = Some (JString (lit ''cuda'')) \<and>
        field j ''compute_type'' = Some (JString (lit ''float16'')) \<and>
        field j ''beam_size'' = Some (JInt 5) \<and>
        field j ''vad_filter'' = Some (JBool True) \<and>
        field j ''cuda_available'' = Some (JBool True)"
    by (simp add: device_of_def compute_type_of_def args_of_def)
  with ok ev show ?thesis by blast
qed

text \<open>
  C6. With no argument after the script name, or more than two, the run consists of
  printing the usage error and exiting with code 1: no import and no library call.
  With one or two arguments the run begins with the import of the library and never
  prints the usage error, and the model is built for the second argument, or for
  \<open>small\<close> when there is only one.
\<close>

theorem usage_check:
  "(length (tl argv) = 0 \<or> length (tl argv) > 2 \<longrightarrow>
      main env argv = ([Stdout usage_error], 1)) \<and>
   (length (tl argv) = 1 \<or> length (tl argv) = 2 \<longrightarrow>
      (\<exists>tr. fst (main env argv) = Import ''faster_whisper'' # tr) \<and>
      Stdout usage_error \<notin> set (fst (main env argv)) \<and>
      (Call_WhisperModel m d c \<in> set (fst (main env argv)) \<longrightarrow>
         m = (if length (tl argv) = 2 then argv ! 2 else lit ''small''))) \<and>
   main env [prog, a] = main env [prog, a, lit ''small'']"
proof -
  have bad: "length (tl argv) = 0 \<or> length (tl argv) > 2 \<longrightarrow>
      main env argv = ([Stdout usage_error], 1)"
    by (auto simp: main_def)
  have dflt: "main env [prog, a] = main env [prog, a, lit ''small'']"
    by (simp add: main_def)
  have good: "length (tl argv) = 1 \<or> length (tl argv) = 2 \<longrightarrow>
      (\<exists>tr. fst (main env argv) = Import ''faster_whisper'' # tr) \<and>
      Stdout usage_error \<notin> set (fst (main env argv)) \<and>
      (Call_WhisperModel m d c \<in> set (fst (main env argv)) \<longrightarrow>
         m = (if length (tl argv) = 2 then argv ! 2 else lit ''small''))"
  proof
    assume "length (tl argv) = 1 \<or> length (tl argv) = 2"
    then have ok: "\<not> (length argv < 2 \<or> length argv > 3)" by auto
    have ms: "model_size_of argv = (if length (tl argv) = 2 then argv ! 2 else lit ''small'')"
      using ok by (auto simp: model_size_of_def)
    from main_events[OF ok, of env] obtain suffix where
      f: "fst (main env argv) = fst (try_body env (argv ! 1) (model_size_of argv)) @ suffix" by blast
    have "\<exists>tr. fst (try_body env (argv ! 1) (model_size_of argv)) = Import ''faster_whisper'' # tr"
      by (cases env "argv ! 1" "model_size_of argv" rule: try_body_cases)
         (simp_all add: ev_defs)
    with f have 1: "\<exists>tr. fst (main env argv) = Import ''faster_whisper'' # tr" by auto
    have 2: "Stdout usage_error \<notin> set (fst (main env argv))"
    proof (cases env argv rule: main_cases)
      case usage
      with ok show ?thesis by simp
    next
      case (import tr m)
      have "Stdout usage_error \<notin> set tr"
      proof
        assume "Stdout usage_error \<in> set tr"
        then have "stdout_of tr \<noteq> []" by (induction tr rule: stdout_of.induct) auto
        with import(3) show False by simp
      qed
      with import show ?thesis by (simp add: usage_error_def import_error_def)
    next
      case (failed tr e)
      have "Stdout usage_error \<notin> set tr"
      proof
        assume "Stdout usage_error \<in> set tr"
        then have "stdout_of tr \<noteq> []" by (induction tr rule: stdout_of.induct) auto
        with failed(4) show False by simp
      qed
      with failed show ?thesis by (simp add: usage_error_def transcription_failed_def)
    next
      case (success tr cuda nfo final)
      have "Stdout usage_error \<notin> set tr"
      proof
        assume "Stdout usage_error \<in> set tr"
        then have "stdout_of tr \<noteq> []" by (induction tr rule: stdout_of.induct) auto
        with success(3) show False by simp
      qed
      with success show ?thesis by (simp add: usage_error_def result_def)
    qed
    have 3: "Call_WhisperModel m d c \<in> set (fst (main env argv)) \<longrightarrow>
         m = (if length (tl argv) = 2 then argv ! 2 else lit ''small'')"
      using main_calls[of undefined undefined env argv m d c] ms by auto
    from 1 2 3 show "(\<exists>tr. fst (main env argv) = Import ''faster_whisper'' # tr) \<and>
      Stdout usage_error \<notin> set (fst (main env argv)) \<and>
      (Call_WhisperModel m d c \<in> set (fst (main env argv)) \<longrightarrow>
         m = (if length (tl argv) = 2 then argv ! 2 else lit ''small''))" by blast
  qed
  from bad good dflt show ?thesis by blast
qed

theorem usage_check_witness:
  "length (tl [lit ''local_transcribe.py'', lit ''a'', lit ''b'', lit ''c'']) > 2 \<and>
   main (example_env True [] 0 1 2 3) [lit ''local_transcribe.py'', lit ''a'', lit ''b'', lit ''c'']
     = ([Stdout usage_error], 1) \<and>
   length (tl [lit ''local_transcribe.py'']) = 0 \<and>
   main (example_env True [] 0 1 2 3) [lit ''local_transcribe.py''] = ([Stdout usage_error], 1) \<and>
   length (tl [lit ''local_transcribe.py'', lit ''a.wav'']) = 1 \<and>
   Stdout usage_error \<notin>
     set (fst (main (example_env True [] 0 1 2 3) [lit ''local_transcribe.py'', lit ''a.wav''])) \<and>
   Call_WhisperModel (lit ''small'') (lit ''cuda'') (lit ''float16'') \<in>
     set (fst (main (example_env True [] 0 1 2 3) [lit ''local_transcribe.py'', lit ''a.wav''])) \<and>
   length (tl [lit ''local_transcribe.py'', lit ''a.wav'', lit ''tiny'']) = 2 \<and>
   Call_WhisperModel (lit ''tiny'') (lit ''cuda'') (lit ''float16'') \<in>
     set (fst (main (example_env True [] 0 1 2 3)
       [lit ''local_transcribe.py'', lit ''a.wav'', lit ''tiny'']))"
proof -
  let ?env = "example_env True [] 0 1 2 3"
  have h1: "length (tl [lit ''local_transcribe.py'', lit ''a'', lit ''b'', lit ''c'']) > 2"
    and h2: "length (tl [lit ''local_transcribe.py'']) = 0"
    and h3: "length (tl [lit ''local_transcribe.py'', lit ''a.wav'']) = 1"
    and h4: "length (tl [lit ''local_transcribe.py'', lit ''a.wav'', lit ''tiny'']) = 2"
    by simp_all
  from h1 usage_check[of "[lit ''local_transcribe.py'', lit ''a'', lit ''b'', lit ''c'']" ?env]
  have r1: "main ?env [lit ''local_transcribe.py'', lit ''a'', lit ''b'', lit ''c'']
     = ([Stdout usage_error], 1)" by blast
  from h2 usage_check[of "[lit ''local_transcribe.py'']" ?env]
  have r2: "main ?env [lit ''local_transcribe.py''] = ([Stdout usage_error], 1)" by blast
  from h3 usage_check[of "[lit ''local_transcribe.py'', lit ''a.wav'']" ?env]
  have r3: "Stdout usage_error \<notin>
     set (fst (main ?env [lit ''local_transcribe.py'', lit ''a.wav'']))" by blast
  have r4: "Call_WhisperModel (lit ''small'') (lit ''cuda'') (lit ''float16'') \<in>
     set (fst (main ?env [lit ''local_transcribe.py'', lit ''a.wav'']))"
    by (simp add: main_example ev_defs device_of_def compute_type_of_def)
  have r5: "Call_WhisperModel (lit ''tiny'') (lit ''cuda'') (lit ''float16'') \<in>
     set (fst (main ?env [lit ''local_transcribe.py'', lit ''a.wav'', lit ''tiny'']))"
    by (simp add: main_example3 ev_defs device_of_def compute_type_of_def)
  from h1 h2 h3 h4 r1 r2 r3 r4 r5 show ?thesis by blast
qed






text \<open>
  C9. \<open>last_segment_text\<close> starts as the empty string and a repeating segment leaves
  it as it is. So when the first four segments have an empty trimmed text, the loop
  stops at the fourth with an empty text, whatever follows.
\<close>

theorem empty_segments_stop:
  assumes "strip (text_of a) = []" and "strip (text_of b) = []"
    and "strip (text_of c) = []" and "strip (text_of d) = []"
  shows "snd (for_segments loop_init (Yield a (Yield b (Yield c (Yield d rest))))) =
           Inr \<lparr>transcribed_text = [], segments_processed = 4,
                last_segment_text = [], repetition_count = 4\<rparr> \<and>
         last_segment_text loop_init = [] \<and>
         (strip (text_of seg) = last_segment_text st \<longrightarrow>
            last_segment_text (state_of (snd (loop_body st seg))) = last_segment_text st)"
  using assms
  by (simp add: loop_body_def loop_init_def add_segment_def Let_def state_of_def)

theorem empty_segments_stop_witness:
  "strip (text_of (seg_of ''  '')) = [] \<and> strip (text_of (seg_of '''')) = [] \<and>
   snd (for_segments loop_init
     (Yield (seg_of ''  '') (Yield (seg_of '''') (Yield (seg_of '''') (Yield (seg_of ''  '')
        (Yield (seg_of ''hello there'') StopIteration)))))) =
     Inr \<lparr>transcribed_text = [], segments_processed = 4,
          last_segment_text = [], repetition_count = 4\<rparr> \<and>
   strip (text_of (seg_of '''')) = last_segment_text loop_init \<and>
   last_segment_text (state_of (snd (loop_body loop_init (seg_of '''')))) =
     last_segment_text loop_init"
proof -
  have e: "strip (text_of (seg_of ''  '')) = []" "strip (text_of (seg_of '''')) = []"
    by (simp_all add: seg_of_def strip_def lit_def isspace_def)
  have l: "strip (text_of (seg_of '''')) = last_segment_text loop_init"
    by (simp add: e loop_init_def)
  from empty_segments_stop[OF e(1) e(2) e(2) e(1), of _ "seg_of ''''" loop_init] e l
  show ?thesis by blast
qed

text \<open>
  C10. The ratio is never a division by zero: \<open>repetition_ratio\<close> does not raise
  \<open>ZeroDivisionError\<close>; more than 10 words have at least one distinct word; an empty
  set of words gives the ratio 0; with at most 10 words the check returns the text
  at once; the check never raises. The division itself raises exactly on a zero
  divisor.
\<close>

theorem ratio_division_safe:
  "repetition_ratio ws \<noteq> Inl ZeroDivisionError \<and>
   (length ws > 10 \<longrightarrow> card (set ws) \<noteq> 0) \<and>
   (set ws = {} \<longrightarrow> repetition_ratio ws = Inr 0) \<and>
   (length (split t) \<le> 10 \<longrightarrow> check_repetitive t = ret t) \<and>
   (\<forall>e. snd (check_repetitive t) \<noteq> Inl e) \<and>
   (truediv a b = Inl ZeroDivisionError \<longleftrightarrow> b = 0)"
proof -
  have 1: "repetition_ratio ws \<noteq> Inl ZeroDivisionError"
    by (cases ws) (simp_all add: repetition_ratio_def truediv_def Let_def card_gt_0_iff)
  have 2: "length ws > 10 \<longrightarrow> card (set ws) \<noteq> 0"
    using card_words_pos[of ws] by auto
  have 3: "set ws = {} \<longrightarrow> repetition_ratio ws = Inr 0"
    by (simp add: repetition_ratio_def)
  have 4: "length (split t) \<le> 10 \<longrightarrow> check_repetitive t = ret t"
    by (simp add: check_repetitive_def)
  have 5: "\<forall>e. snd (check_repetitive t) \<noteq> Inl e"
    using check_repetitive_result[of t] by simp
  have 6: "truediv a b = Inl ZeroDivisionError \<longleftrightarrow> b = 0"
    by (simp add: truediv_def)
  from 1 2 3 4 5 6 show ?thesis by blast
qed

theorem ratio_division_safe_witness:
  "repetition_ratio [] = Inr 0 \<and>
   length (split (lit ''ab cd'')) \<le> 10 \<and>
   check_repetitive (lit ''ab cd'') = ret (lit ''ab cd'') \<and>
   truediv 3 0 = Inl ZeroDivisionError \<and>
   length (replicate 11 (lit ''a'')) > 10 \<and>
   card (set (replicate 11 (lit ''a''))) \<noteq> 0"
proof -
  have s: "split (lit ''ab cd'') = [lit ''ab'', lit ''cd'']"
    by (simp add: split_def lit_def isspace_def)
  have l: "length (split (lit ''ab cd'')) \<le> 10" by (simp add: s)
  have n: "length (replicate 11 (lit ''a'')) > 10" by simp
  from ratio_division_safe[of "[]" "lit ''ab cd''" 3 0] l
  have 1: "repetition_ratio [] = Inr 0 \<and>
     check_repetitive (lit ''ab cd'') = ret (lit ''ab cd'') \<and>
     truediv 3 0 = Inl ZeroDivisionError" by simp
  from ratio_division_safe[of "replicate 11 (lit ''a'')" "lit ''ab cd''" 3 0] n
  have 2: "card (set (replicate 11 (lit ''a''))) \<noteq> 0" by blast
  from 1 2 l n show ?thesis by blast
qed

end
